theory Spec2Isabelle
  imports Main "HOL-Library.Word"
begin

unbundle bit_operations_syntax

section \<open>Common types\<close>

text \<open>
  The ways in which a call can leave the tracer without returning to its caller:
  a failed \<^verbatim>\<open>assert\<close>/\<^verbatim>\<open>ASSERT\<close>, a \<^verbatim>\<open>FATAL()\<close>/\<^verbatim>\<open>fatal()\<close> exit,
  an \<^verbatim>\<open>exit(0)\<close>, and arithmetic that C++ leaves undefined (signed overflow,
  a negative length).
\<close>

datatype error = AssertFailed | Fatal | Exit | Undefined

type_synonym c_int = "32 word"
type_synonym int64_t = "64 word"
type_synonym uintptr_t = "32 word"
type_synonym byte = "8 word"

definition and_then :: "error + 'a \<Rightarrow> ('a \<Rightarrow> error + 'b) \<Rightarrow> error + 'b" where
  "and_then r f = (case r of Inl e \<Rightarrow> Inl e | Inr x \<Rightarrow> f x)"

definition assert :: "bool \<Rightarrow> error + unit" where
  "assert b = (if b then Inr () else Inl AssertFailed)"

lemma and_then_Inl [simp]: "and_then (Inl e) f = Inl e"
  by (simp add: and_then_def)

lemma and_then_Inr [simp]: "and_then (Inr x) f = f x"
  by (simp add: and_then_def)

lemma and_then_eq_Inr:
  "and_then r f = Inr y \<longleftrightarrow> (\<exists>x. r = Inr x \<and> f x = Inr y)"
  by (cases r) simp_all

lemma assert_eq_Inr [simp]: "assert b = Inr u \<longleftrightarrow> b"
  by (simp add: assert_def)

lemma assert_True [simp]: "assert True = Inr ()"
  by (simp add: assert_def)

lemma assert_False [simp]: "assert False = Inl AssertFailed"
  by (simp add: assert_def)

lemma and_then_cong [fundef_cong]:
  "r = r' \<Longrightarrow> (\<And>x. r' = Inr x \<Longrightarrow> f x = f' x) \<Longrightarrow> and_then r f = and_then r' f'"
  by (cases r') (simp_all add: and_then_def)

section \<open>Signal numbers of linux-x86\<close>

definition SIGHUP :: "'a::numeral" where "SIGHUP = 1"
definition SIGINT :: "'a::numeral" where "SIGINT = 2"
definition SIGQUIT :: "'a::numeral" where "SIGQUIT = 3"
definition SIGILL :: "'a::numeral" where "SIGILL = 4"
definition SIGTRAP :: "'a::numeral" where "SIGTRAP = 5"
definition SIGABRT :: "'a::numeral" where "SIGABRT = 6"
definition SIGBUS :: "'a::numeral" where "SIGBUS = 7"
definition SIGFPE :: "'a::numeral" where "SIGFPE = 8"
definition SIGKILL :: "'a::numeral" where "SIGKILL = 9"
definition SIGUSR1 :: "'a::numeral" where "SIGUSR1 = 10"
definition SIGSEGV :: "'a::numeral" where "SIGSEGV = 11"
definition SIGUSR2 :: "'a::numeral" where "SIGUSR2 = 12"
definition SIGPIPE :: "'a::numeral" where "SIGPIPE = 13"
definition SIGALRM :: "'a::numeral" where "SIGALRM = 14"
definition SIGTERM :: "'a::numeral" where "SIGTERM = 15"
definition SIGSTKFLT :: "'a::numeral" where "SIGSTKFLT = 16"
definition SIGCHLD :: "'a::numeral" where "SIGCHLD = 17"
definition SIGCONT :: "'a::numeral" where "SIGCONT = 18"
definition SIGSTOP :: "'a::numeral" where "SIGSTOP = 19"
definition SIGTSTP :: "'a::numeral" where "SIGTSTP = 20"
definition SIGTTIN :: "'a::numeral" where "SIGTTIN = 21"
definition SIGTTOU :: "'a::numeral" where "SIGTTOU = 22"
definition SIGURG :: "'a::numeral" where "SIGURG = 23"
definition SIGXCPU :: "'a::numeral" where "SIGXCPU = 24"
definition SIGXFSZ :: "'a::numeral" where "SIGXFSZ = 25"
definition SIGVTALRM :: "'a::numeral" where "SIGVTALRM = 26"
definition SIGPROF :: "'a::numeral" where "SIGPROF = 27"
definition SIGWINCH :: "'a::numeral" where "SIGWINCH = 28"
definition SIGIO :: "'a::numeral" where "SIGIO = 29"
definition SIGPWR :: "'a::numeral" where "SIGPWR = 30"
definition SIGSYS :: "'a::numeral" where "SIGSYS = 31"

section \<open>Wait-status words (task.h, task.cc)\<close>

text \<open>The libc macros \<^verbatim>\<open>WIFSTOPPED\<close> and \<^verbatim>\<open>WSTOPSIG\<close> of Linux.\<close>

definition WIFSTOPPED :: "c_int \<Rightarrow> bool" where
  "WIFSTOPPED status \<longleftrightarrow> status AND 0xff = 0x7f"

definition WSTOPSIG :: "c_int \<Rightarrow> c_int" where
  "WSTOPSIG status = drop_bit 8 (status AND 0xff00)"

definition ptrace_event_from_status :: "c_int \<Rightarrow> c_int" where
  "ptrace_event_from_status status = drop_bit 16 (0xFF0000 AND status)"

definition stopped_from_status :: "c_int \<Rightarrow> bool" where
  "stopped_from_status status = WIFSTOPPED status"

definition stop_sig_from_status :: "c_int \<Rightarrow> error + c_int" where
  "stop_sig_from_status status =
     (if \<not> stopped_from_status status then Inl AssertFailed
      else Inr (WSTOPSIG status))"

definition pending_sig_from_status :: "c_int \<Rightarrow> error + c_int" where
  "pending_sig_from_status status =
     (if status = 0 then Inr 0
      else case stop_sig_from_status status of
        Inl e \<Rightarrow> Inl e
      | Inr sig \<Rightarrow>
          if sig = (SIGTRAP OR 0x80) then Inr 0
          else if sig = SIGTRAP then
            (if ptrace_event_from_status status \<noteq> 0 then Inr 0 else Inr SIGTRAP)
          else Inr (sig AND NOT 0x80))"

section \<open>Signal numbers of the debugger (replayer/dbg_gdb.c)\<close>

text \<open>
  \<^verbatim>\<open>to_gdb_signum\<close> translates a linux-x86 signal number. \<^verbatim>\<open>SIGRTMIN\<close> and
  \<^verbatim>\<open>SIGRTMAX\<close> are values the C library computes when the program runs, so they
  are the parameters \<open>rtmin\<close> and \<open>rtmax\<close>. The \<^verbatim>\<open>switch\<close> is written as the
  chain of its cases, in the order of the source.
\<close>

definition to_gdb_signum :: "int \<Rightarrow> int \<Rightarrow> int \<Rightarrow> error + int" where
  "to_gdb_signum rtmin rtmax sig =
     (if rtmin \<le> sig \<and> sig \<le> rtmax then Inr (sig + 12)
      else if sig = 0 then Inr 0
      else if sig = SIGHUP then Inr 1
      else if sig = SIGINT then Inr 2
      else if sig = SIGQUIT then Inr 3
      else if sig = SIGILL then Inr 4
      else if sig = SIGTRAP then Inr 5
      else if sig = SIGABRT then Inr 6
      else if sig = SIGBUS then Inr 10
      else if sig = SIGFPE then Inr 8
      else if sig = SIGKILL then Inr 9
      else if sig = SIGUSR1 then Inr 30
      else if sig = SIGSEGV then Inr 11
      else if sig = SIGUSR2 then Inr 31
      else if sig = SIGPIPE then Inr 13
      else if sig = SIGALRM then Inr 14
      else if sig = SIGTERM then Inr 15
      else if sig = SIGSTKFLT then Inr 38
      else if sig = SIGCHLD then Inr 20
      else if sig = SIGCONT then Inr 19
      else if sig = SIGSTOP then Inr 17
      else if sig = SIGTSTP then Inr 18
      else if sig = SIGTTIN then Inr 21
      else if sig = SIGTTOU then Inr 22
      else if sig = SIGURG then Inr 16
      else if sig = SIGXCPU then Inr 24
      else if sig = SIGXFSZ then Inr 25
      else if sig = SIGVTALRM then Inr 26
      else if sig = SIGPROF then Inr 27
      else if sig = SIGWINCH then Inr 28
      else if sig = SIGIO then Inr 23
      else if sig = SIGPWR then Inr 32
      else if sig = SIGSYS then Inr 12
      else Inl Fatal)"

section \<open>The task and what it sees of the kernel (task.h)\<close>

type_synonym sig_set_t = "64 word"
type_synonym siginfo_t = "byte list"

text \<open>
  The kernel's side of one tracee, as far as the functions below read or write it:
  \<^item> \<open>rbc_counter\<close>: what \<^verbatim>\<open>read\<close> on the open rbc perf-event fd returns;
  \<^item> \<open>perf_ok\<close>: whether \<^verbatim>\<open>perf_event_open\<close>, \<^verbatim>\<open>ioctl\<close>, \<^verbatim>\<open>fcntl\<close> and
    \<^verbatim>\<open>read\<close> on the counter succeed;
  \<^item> \<open>siginfo\<close>: the answer to \<^verbatim>\<open>PTRACE_GETSIGINFO\<close>, \<open>None\<close> when the
    request fails;
  \<^item> \<open>u_debugreg\<close>: the tracee's debug registers, and \<open>poke_ok i v\<close>: whether
    \<^verbatim>\<open>PTRACE_POKEUSER\<close> of \<open>v\<close> into debug register \<open>i\<close> succeeds (a failed
    request leaves the register as it was);
  \<^item> \<open>sigset_at\<close>: the \<^verbatim>\<open>sig_set_t\<close> that \<^verbatim>\<open>read_mem\<close> finds at an address of the
    tracee, \<open>None\<close> when the read falls short.
\<close>

record kernel =
  rbc_counter :: int64_t
  perf_ok :: bool
  siginfo :: "siginfo_t option"
  u_debugreg :: "nat \<Rightarrow> uintptr_t"
  poke_ok :: "nat \<Rightarrow> uintptr_t \<Rightarrow> bool"
  sigset_at :: "uintptr_t \<Rightarrow> sig_set_t option"

record hpc_context =
  started :: bool
  sample_period :: int64_t

text \<open>
  Modelled from the spec: the \<^verbatim>\<open>Event\<close> class is declared outside the files at
  hand. An event is a tagged record; the code below reads its type and whether it carries
  execution information, and writes it to the trace as it is.
\<close>

datatype EventType =
  EV_SENTINEL | EV_NOOP | EV_DESCHED | EV_SIGNAL | EV_SIGNAL_DELIVERY
  | EV_SIGNAL_HANDLER | EV_SYSCALL | EV_SYSCALL_INTERRUPTION | EV_SYSCALLBUF_FLUSH

record Event =
  type :: EventType
  has_exec_info :: bool

text \<open>
  Modelled from the spec: \<^verbatim>\<open>struct syscallbuf_hdr\<close> is declared outside the files
  at hand. The header holds the number of record bytes, the \<open>locked\<close> bit and the
  \<open>abort_commit\<close> bit; \<open>image\<close> gives the bytes of the shared mapping from the
  header on, as the tracer reads them.
\<close>

record syscallbuf_hdr =
  num_rec_bytes :: "32 word"
  abort_commit :: bool
  locked :: bool
  image :: "nat \<Rightarrow> byte"

record raw_data =
  rd_addr :: uintptr_t
  rd_data :: "byte list"
  rd_ev :: Event
  rd_global_time :: "32 word"

record trace_frame =
  frame_global_time :: "32 word"
  frame_thread_time :: "32 word"
  frame_tid :: c_int
  frame_ev :: Event
  frame_rbc :: "int64_t option"

datatype trace_item = Frame trace_frame | Raw raw_data

text \<open>
  Modelled from the spec: the trace output stream is declared outside the files at hand.
  It keeps the global time and what was written; writing a frame advances the time.
\<close>

record TraceOfstream =
  time :: "32 word"
  written :: "trace_item list"

definition write_frame :: "TraceOfstream \<Rightarrow> trace_frame \<Rightarrow> TraceOfstream" where
  "write_frame s f = s\<lparr>written := written s @ [Frame f], time := time s + 1\<rparr>"

definition write_raw :: "TraceOfstream \<Rightarrow> raw_data \<Rightarrow> TraceOfstream" where
  "write_raw s d = s\<lparr>written := written s @ [Raw d]\<rparr>"

record Task =
  tid :: c_int
  thread_time :: "32 word"
  rbcs :: int64_t
  hpc :: hpc_context
  pending_events :: "Event list"
  syscallbuf_hdr :: "syscallbuf_hdr option"
  syscallbuf_child :: uintptr_t
  num_syscallbuf_bytes :: "32 word"
  traced_syscall_ip :: uintptr_t
  untraced_syscall_ip :: uintptr_t
  desched_fd_child :: c_int
  delay_syscallbuf_reset :: bool
  delay_syscallbuf_flush :: bool
  flushed_syscallbuf :: bool
  blocked_sigs :: sig_set_t
  wait_status :: c_int
  stashed_wait_status :: c_int
  stashed_si :: siginfo_t
  session_replay :: bool
  ofstream :: TraceOfstream
  kern :: kernel

text \<open>
  What the code takes from headers and flags outside the files at hand: the
  \<^verbatim>\<open>max_rbc\<close> and \<^verbatim>\<open>use_syscall_buffer\<close> flags, \<^verbatim>\<open>sizeof(struct syscallbuf_hdr)\<close>,
  \<^verbatim>\<open>SYSCALLBUF_BUFFER_SIZE\<close>, the desched signal, \<^verbatim>\<open>REPLAY_DESCHED_EVENT_FD\<close> and
  the macro \<^verbatim>\<open>SYSCALL_FAILED\<close>.
\<close>

record config =
  max_rbc :: int64_t
  use_syscall_buffer :: bool
  sizeof_syscallbuf_hdr :: "32 word"
  SYSCALLBUF_BUFFER_SIZE :: "32 word"
  SYSCALLBUF_DESCHED_SIGNAL :: c_int
  REPLAY_DESCHED_EVENT_FD :: c_int
  SYSCALL_FAILED :: "c_int \<Rightarrow> bool"

section \<open>Performance counter (hpc.cc)\<close>

definition start_counter :: "Task \<Rightarrow> error + Task" where
  "start_counter t =
     (if \<not> perf_ok (kern t) then Inl Fatal
      else Inr (t\<lparr>kern := (kern t)\<lparr>rbc_counter := 0\<rparr>\<rparr>))"

definition stop_counter :: "Task \<Rightarrow> error + Task" where
  "stop_counter t = (if \<not> perf_ok (kern t) then Inl Fatal else Inr t)"

definition start_hpc :: "Task \<Rightarrow> error + Task" where
  "start_hpc t =
     and_then (start_counter t) (\<lambda>t.
       if \<not> perf_ok (kern t) then Inl Fatal
       else Inr (t\<lparr>hpc := (hpc t)\<lparr>started := True\<rparr>\<rparr>))"

definition stop_hpc :: "Task \<Rightarrow> error + Task" where
  "stop_hpc t = (if \<not> started (hpc t) then Inr t else stop_counter t)"

definition cleanup_hpc :: "Task \<Rightarrow> error + Task" where
  "cleanup_hpc t =
     and_then (stop_hpc t) (\<lambda>t. Inr (t\<lparr>hpc := (hpc t)\<lparr>started := False\<rparr>\<rparr>))"

definition reset_hpc :: "Task \<Rightarrow> int64_t \<Rightarrow> error + Task" where
  "reset_hpc t val =
     and_then (if started (hpc t) then cleanup_hpc t else Inr t) (\<lambda>t.
       start_hpc (t\<lparr>hpc := (hpc t)\<lparr>sample_period := val\<rparr>\<rparr>))"

definition read_counter :: "hpc_context \<Rightarrow> kernel \<Rightarrow> error + int64_t" where
  "read_counter h k =
     (if \<not> started h then Inr 0
      else and_then (assert (perf_ok k)) (\<lambda>_. Inr (rbc_counter k)))"

definition read_rbc :: "hpc_context \<Rightarrow> kernel \<Rightarrow> error + int64_t" where
  "read_rbc h k = read_counter h k"

text \<open>
  \<^verbatim>\<open>rbcs += hpc_rbcs\<close> on \<^verbatim>\<open>int64_t\<close>: a sum outside the type is undefined in C++.
\<close>

definition add_int64 :: "int64_t \<Rightarrow> int64_t \<Rightarrow> error + int64_t" where
  "add_int64 a b =
     (if sint a + sint b < - (2 ^ 63) \<or> 2 ^ 63 \<le> sint a + sint b then Inl Undefined
      else Inr (a + b))"

section \<open>Task: the branch count (task.cc)\<close>


definition set_rbc_count :: "Task \<Rightarrow> int64_t \<Rightarrow> Task" where
  "set_rbc_count t count = t\<lparr>rbcs := count\<rparr>"

definition flush_inconsistent_state :: "Task \<Rightarrow> Task" where
  "flush_inconsistent_state t = t\<lparr>rbcs := 0\<rparr>"


section \<open>Task: pending and stashed signals (task.h, task.cc)\<close>

definition pending_sig :: "Task \<Rightarrow> error + c_int" where
  "pending_sig t = pending_sig_from_status (wait_status t)"

definition has_stashed_sig :: "Task \<Rightarrow> bool" where
  "has_stashed_sig t \<longleftrightarrow> stashed_wait_status t \<noteq> 0"

definition force_status :: "Task \<Rightarrow> c_int \<Rightarrow> Task" where
  "force_status t status = t\<lparr>wait_status := status\<rparr>"

definition get_siginfo :: "Task \<Rightarrow> error + siginfo_t" where
  "get_siginfo t = (case siginfo (kern t) of None \<Rightarrow> Inl AssertFailed | Some si \<Rightarrow> Inr si)"

definition stash_sig :: "Task \<Rightarrow> error + Task" where
  "stash_sig t =
     and_then (pending_sig t) (\<lambda>sig.
     and_then (assert (sig \<noteq> 0)) (\<lambda>_.
     and_then (assert (\<not> has_stashed_sig t)) (\<lambda>_.
     and_then (get_siginfo (t\<lparr>stashed_wait_status := wait_status t\<rparr>)) (\<lambda>si.
       Inr (t\<lparr>stashed_wait_status := wait_status t, stashed_si := si\<rparr>)))))"

definition pop_stash_sig :: "Task \<Rightarrow> error + (siginfo_t \<times> Task)" where
  "pop_stash_sig t =
     and_then (assert (has_stashed_sig t)) (\<lambda>_.
       let t = force_status t (stashed_wait_status t);
           t = t\<lparr>stashed_wait_status := 0\<rparr>
       in Inr (stashed_si t, t))"

section \<open>Task: the blocked signals and the lock of the syscall buffer (task.cc)\<close>

record Registers =
  arg1 :: uintptr_t
  arg2 :: uintptr_t
  syscall_result :: uintptr_t

definition SIG_BLOCK :: c_int where "SIG_BLOCK = 0"
definition SIG_UNBLOCK :: c_int where "SIG_UNBLOCK = 1"
definition SIG_SETMASK :: c_int where "SIG_SETMASK = 2"

definition is_sig_blocked :: "Task \<Rightarrow> c_int \<Rightarrow> bool" where
  "is_sig_blocked t sig =
     (let sig_bit = sig - 1
      in drop_bit (unat sig_bit) (blocked_sigs t) AND 1 \<noteq> 0)"

definition is_desched_sig_blocked :: "config \<Rightarrow> Task \<Rightarrow> bool" where
  "is_desched_sig_blocked cfg t = is_sig_blocked t (SYSCALLBUF_DESCHED_SIGNAL cfg)"

definition read_mem_sigset :: "Task \<Rightarrow> uintptr_t \<Rightarrow> error + sig_set_t" where
  "read_mem_sigset t p = (case sigset_at (kern t) p of None \<Rightarrow> Inl AssertFailed | Some s \<Rightarrow> Inr s)"

definition set_locked :: "Task \<Rightarrow> bool \<Rightarrow> error + Task" where
  "set_locked t b =
     (case syscallbuf_hdr t of
        None \<Rightarrow> Inl Undefined
      | Some h \<Rightarrow> Inr (t\<lparr>syscallbuf_hdr := Some (h\<lparr>locked := b\<rparr>)\<rparr>))"

definition update_sigmask :: "config \<Rightarrow> Task \<Rightarrow> Registers \<Rightarrow> error + Task" where
  "update_sigmask cfg t regs =
     (let how = arg1 regs; setp = arg2 regs
      in if SYSCALL_FAILED cfg (syscall_result regs) \<or> setp = 0 then Inr t
      else
        and_then (assert (case syscallbuf_hdr t of None \<Rightarrow> True
                          | Some h \<Rightarrow> \<not> locked h \<or> is_desched_sig_blocked cfg t)) (\<lambda>_.
        and_then (read_mem_sigset t setp) (\<lambda>set.
        and_then
          (if how = SIG_BLOCK then Inr (t\<lparr>blocked_sigs := blocked_sigs t OR set\<rparr>)
           else if how = SIG_UNBLOCK then Inr (t\<lparr>blocked_sigs := blocked_sigs t AND NOT set\<rparr>)
           else if how = SIG_SETMASK then Inr (t\<lparr>blocked_sigs := set\<rparr>)
           else Inl Fatal) (\<lambda>t.
          if syscallbuf_hdr t \<noteq> None then set_locked t (is_desched_sig_blocked cfg t)
          else Inr t))))"

text \<open>
  \<^verbatim>\<open>init_buffers\<close> runs system calls in the tracee and in the tracer. What they
  answer is given from outside: the \<^verbatim>\<open>rrcall_init_buffers_params\<close> read from the
  tracee, whether creating and mapping the shared segment succeeds and where the tracee
  maps it, and whether sharing the desched fd succeeds and which fd number the tracee
  reports.
\<close>

record rrcall_init_buffers_params =
  syscallbuf_enabled :: bool
  args_traced_syscall_ip :: uintptr_t
  args_untraced_syscall_ip :: uintptr_t

record AutoRemoteSyscalls =
  shmem_ok :: bool
  mmap2_result :: uintptr_t
  desched_ok :: bool
  recv_fd_child :: c_int

definition init_syscall_buffer ::
  "config \<Rightarrow> Task \<Rightarrow> AutoRemoteSyscalls \<Rightarrow> uintptr_t \<Rightarrow> error + (uintptr_t \<times> Task)" where
  "init_syscall_buffer cfg t remote map_hint =
     (if \<not> shmem_ok remote then Inl Fatal
      else
        let child_map_addr = mmap2_result remote;
            t = t\<lparr>num_syscallbuf_bytes := SYSCALLBUF_BUFFER_SIZE cfg\<rparr>;
            t = t\<lparr>syscallbuf_child := child_map_addr\<rparr>;
            t = t\<lparr>syscallbuf_hdr := Some \<lparr>num_rec_bytes = 0, abort_commit = False,
                                              locked = False, image = (\<lambda>_. 0)\<rparr>\<rparr>
        in Inr (child_map_addr, t))"

definition init_desched_fd ::
  "config \<Rightarrow> Task \<Rightarrow> AutoRemoteSyscalls \<Rightarrow> bool \<Rightarrow> error + Task" where
  "init_desched_fd cfg t remote share_desched_fd =
     (if \<not> share_desched_fd then Inr (t\<lparr>desched_fd_child := REPLAY_DESCHED_EVENT_FD cfg\<rparr>)
      else if \<not> desched_ok remote then Inl Fatal
      else Inr (t\<lparr>desched_fd_child := recv_fd_child remote\<rparr>))"

definition init_buffers ::
  "config \<Rightarrow> Task \<Rightarrow> AutoRemoteSyscalls \<Rightarrow> rrcall_init_buffers_params \<Rightarrow> uintptr_t \<Rightarrow> bool
     \<Rightarrow> error + (uintptr_t \<times> Task)" where
  "init_buffers cfg t remote args map_hint share_desched_fd =
     and_then (assert (use_syscall_buffer cfg = syscallbuf_enabled args)) (\<lambda>_.
     and_then
       (if syscallbuf_enabled args then
          (let t = t\<lparr>traced_syscall_ip := args_traced_syscall_ip args\<rparr>;
               t = t\<lparr>untraced_syscall_ip := args_untraced_syscall_ip args\<rparr>
           in and_then (init_syscall_buffer cfg t remote map_hint) (\<lambda>(child_map_addr, t).
              and_then (init_desched_fd cfg t remote share_desched_fd) (\<lambda>t.
                Inr (child_map_addr, t))))
        else Inr (0, t)) (\<lambda>(child_map_addr, t).
     and_then (set_locked t (is_desched_sig_blocked cfg t)) (\<lambda>t.
       Inr (child_map_addr, t))))"

section \<open>Task: the debug registers (task.cc)\<close>











section \<open>Task: reading the tracee's memory (task.cc)\<close>






section \<open>Task: flushing the syscall buffer into the trace (task.h, task.cc)\<close>

text \<open>
  The register snapshots of a frame and the memory dump and checksum hooks of
  \<^verbatim>\<open>record_event\<close> write nothing that is read below and are left out.
  \<^verbatim>\<open>record_local\<close> gets the bytes behind its \<^verbatim>\<open>data\<close> pointer as a function of the
  offset.
\<close>

definition ev :: "Task \<Rightarrow> error + Event" where
  "ev t = (if pending_events t = [] then Inl Undefined else Inr (last (pending_events t)))"

definition push_event :: "Task \<Rightarrow> Event \<Rightarrow> Task" where
  "push_event t e = t\<lparr>pending_events := pending_events t @ [e]\<rparr>"

definition pop_event :: "Task \<Rightarrow> EventType \<Rightarrow> error + Task" where
  "pop_event t expected_type =
     and_then (ev t) (\<lambda>e.
     and_then (assert (type e = expected_type)) (\<lambda>_.
       Inr (t\<lparr>pending_events := butlast (pending_events t)\<rparr>)))"

definition NO_EXEC_INFO :: bool where "NO_EXEC_INFO = False"

function (domintros)
  maybe_flush_syscallbuf :: "config \<Rightarrow> Task \<Rightarrow> error + Task"
  and record_local :: "config \<Rightarrow> Task \<Rightarrow> uintptr_t \<Rightarrow> 32 word \<Rightarrow> (nat \<Rightarrow> byte) \<Rightarrow> error + Task"
  and record_event :: "config \<Rightarrow> Task \<Rightarrow> Event \<Rightarrow> error + Task"
  and record_current_event :: "config \<Rightarrow> Task \<Rightarrow> error + Task"
where
  "maybe_flush_syscallbuf cfg t =
     and_then (ev t) (\<lambda>e.
       if EV_SYSCALLBUF_FLUSH = type e then Inr t
       else case syscallbuf_hdr t of
         None \<Rightarrow> Inr t
       | Some h \<Rightarrow>
           if 0 = num_rec_bytes h \<or> delay_syscallbuf_flush t then Inr t
           else
             and_then (record_local cfg
                         (push_event t \<lparr>type = EV_SYSCALLBUF_FLUSH, has_exec_info = NO_EXEC_INFO\<rparr>)
                         (syscallbuf_child t)
                         (num_rec_bytes h + sizeof_syscallbuf_hdr cfg) (image h)) (\<lambda>t.
             and_then (record_current_event cfg t) (\<lambda>t.
             and_then (pop_event t EV_SYSCALLBUF_FLUSH) (\<lambda>t.
               case syscallbuf_hdr t of
                 None \<Rightarrow> Inl Undefined
               | Some h \<Rightarrow>
                   and_then (assert (\<not> abort_commit h)) (\<lambda>_.
                     let t = (if \<not> delay_syscallbuf_reset t
                              then t\<lparr>syscallbuf_hdr := Some (h\<lparr>num_rec_bytes := 0\<rparr>)\<rparr>
                              else t)
                     in Inr (t\<lparr>flushed_syscallbuf := True\<rparr>))))))"
| "record_local cfg t a num_bytes buf =
     and_then (maybe_flush_syscallbuf cfg t) (\<lambda>t.
     and_then (ev t) (\<lambda>e.
       if num_bytes <s 0 then Inl Undefined
       else Inr (t\<lparr>ofstream := write_raw (ofstream t)
                   \<lparr>rd_addr = a, rd_data = map buf [0..<unat num_bytes], rd_ev = e,
                    rd_global_time = time (ofstream t)\<rparr>\<rparr>)))"
| "record_event cfg t e =
     and_then (maybe_flush_syscallbuf cfg t) (\<lambda>t.
       let global_time = time (ofstream t);
           thread_time = thread_time t;
           t = t\<lparr>thread_time := thread_time + 1\<rparr>
       in and_then
            (if has_exec_info e then
               and_then (read_rbc (hpc t) (kern t)) (\<lambda>c.
               and_then (add_int64 (rbcs t) c) (\<lambda>r. Inr (t\<lparr>rbcs := r\<rparr>, Some r)))
             else Inr (t, None)) (\<lambda>(t, rbc).
          let t = t\<lparr>ofstream := write_frame (ofstream t)
                     \<lparr>frame_global_time = global_time, frame_thread_time = thread_time,
                      frame_tid = tid t, frame_ev = e, frame_rbc = rbc\<rparr>\<rparr>
          in if has_exec_info e then reset_hpc t (max_rbc cfg) else Inr t))"
| "record_current_event cfg t =
     and_then (ev t) (\<lambda>e. record_event cfg t e)"
  by pat_completeness auto

text \<open>
  Termination: the calls nest only while the top event is not the flush event. Below
  a flush event \<^verbatim>\<open>maybe_flush_syscallbuf\<close> returns at once, and the functions it calls
  leave the stack of events as it is.
\<close>

definition flushing :: "Task \<Rightarrow> bool" where
  "flushing t \<longleftrightarrow> (case ev t of Inl _ \<Rightarrow> True | Inr e \<Rightarrow> type e = EV_SYSCALLBUF_FLUSH)"

lemma flushing_maybe_flush_dom:
  assumes "flushing t"
  shows "maybe_flush_syscallbuf_record_local_record_event_record_current_event_dom
           (Inl (Inl (cfg, t)))"
  using assms
  by (intro maybe_flush_syscallbuf_record_local_record_event_record_current_event.domintros(1))
     (auto simp: flushing_def)

lemma flushing_maybe_flush:
  assumes "flushing t" and "maybe_flush_syscallbuf cfg t = Inr t'"
  shows "t' = t"
  using assms maybe_flush_syscallbuf.psimps [OF flushing_maybe_flush_dom [OF assms(1)], of cfg]
  by (auto simp: flushing_def and_then_eq_Inr split: sum.splits)

lemma flushing_record_local_dom:
  assumes "flushing t"
  shows "maybe_flush_syscallbuf_record_local_record_event_record_current_event_dom
           (Inl (Inr (cfg, t, a, n, buf)))"
  by (rule maybe_flush_syscallbuf_record_local_record_event_record_current_event.domintros(2))
     (rule flushing_maybe_flush_dom [OF assms])

lemma flushing_record_local:
  assumes "flushing t" and "record_local cfg t a n buf = Inr t'"
  shows "pending_events t' = pending_events t"
  using assms(2)
  by (auto simp: record_local.psimps [OF flushing_record_local_dom [OF assms(1)]]
        and_then_eq_Inr split: if_splits dest!: flushing_maybe_flush [OF assms(1)])

lemma flushing_push_event:
  "flushing (push_event t \<lparr>type = EV_SYSCALLBUF_FLUSH, has_exec_info = b\<rparr>)"
  by (simp add: flushing_def push_event_def ev_def)

lemma flushing_cong:
  "pending_events t' = pending_events t \<Longrightarrow> flushing t' = flushing t"
  by (simp add: flushing_def ev_def)

lemma flushing_record_event_dom:
  assumes "flushing t"
  shows "maybe_flush_syscallbuf_record_local_record_event_record_current_event_dom
           (Inr (Inl (cfg, t, e)))"
  by (rule maybe_flush_syscallbuf_record_local_record_event_record_current_event.domintros(3))
     (rule flushing_maybe_flush_dom [OF assms])

lemma flushing_record_current_event_dom:
  assumes "flushing t"
  shows "maybe_flush_syscallbuf_record_local_record_event_record_current_event_dom
           (Inr (Inr (cfg, t)))"
  by (rule maybe_flush_syscallbuf_record_local_record_event_record_current_event.domintros(4))
     (rule flushing_record_event_dom [OF assms])

lemma maybe_flush_dom:
  "maybe_flush_syscallbuf_record_local_record_event_record_current_event_dom
     (Inl (Inl (cfg, t)))"
proof (rule maybe_flush_syscallbuf_record_local_record_event_record_current_event.domintros(1))
  fix e h
  show "maybe_flush_syscallbuf_record_local_record_event_record_current_event_dom
          (Inl (Inr (cfg, push_event t \<lparr>type = EV_SYSCALLBUF_FLUSH, has_exec_info = NO_EXEC_INFO\<rparr>,
                     syscallbuf_child t, num_rec_bytes h + sizeof_syscallbuf_hdr cfg,
                     image h)))"
    by (rule flushing_record_local_dom) (rule flushing_push_event)
next
  fix e h t'
  assume "record_local cfg (push_event t \<lparr>type = EV_SYSCALLBUF_FLUSH, has_exec_info = NO_EXEC_INFO\<rparr>)
            (syscallbuf_child t) (num_rec_bytes h + sizeof_syscallbuf_hdr cfg) (image h) = Inr t'"
  then have "flushing t'"
    using flushing_record_local [OF flushing_push_event] flushing_cong flushing_push_event
    by blast
  then show "maybe_flush_syscallbuf_record_local_record_event_record_current_event_dom
          (Inr (Inr (cfg, t')))"
    by (rule flushing_record_current_event_dom)
qed

termination maybe_flush_syscallbuf
proof (rule allI)
  fix x :: "(config \<times> Task + config \<times> Task \<times> uintptr_t \<times> 32 word \<times> (nat \<Rightarrow> byte))
            + (config \<times> Task \<times> Event + config \<times> Task)"
  note intros = maybe_flush_syscallbuf_record_local_record_event_record_current_event.domintros
  have l: "maybe_flush_syscallbuf_record_local_record_event_record_current_event_dom
             (Inl (Inr (cfg, t, a, n, buf)))" for cfg t a n buf
    by (rule intros(2)) (rule maybe_flush_dom)
  have e: "maybe_flush_syscallbuf_record_local_record_event_record_current_event_dom
             (Inr (Inl (cfg, t, e)))" for cfg t e
    by (rule intros(3)) (rule maybe_flush_dom)
  have c: "maybe_flush_syscallbuf_record_local_record_event_record_current_event_dom
             (Inr (Inr (cfg, t)))" for cfg t
    by (rule intros(4)) (rule e)
  show "maybe_flush_syscallbuf_record_local_record_event_record_current_event_dom x"
  proof (cases x)
    case (Inl y)
    then show ?thesis
    proof (cases y)
      case (Inl z)
      with \<open>x = Inl y\<close> show ?thesis
        by (cases z) (simp add: maybe_flush_dom)
    next
      case (Inr z)
      with \<open>x = Inl y\<close> show ?thesis
        by (cases z) (simp add: l)
    qed
  next
    case (Inr y)
    then show ?thesis
    proof (cases y)
      case (Inl z)
      with \<open>x = Inr y\<close> show ?thesis
        by (cases z) (simp add: e)
    next
      case (Inr z)
      with \<open>x = Inr y\<close> show ?thesis
        by (cases z) (simp add: c)
    qed
  qed
qed


declare maybe_flush_syscallbuf.simps [simp del] record_local.simps [simp del]
  record_event.simps [simp del] record_current_event.simps [simp del]

declare maybe_flush_syscallbuf.simps [simp del] record_local.simps [simp del]
  record_event.simps [simp del] record_current_event.simps [simp del]

section \<open>Debug server (replayer/dbg_gdb.c)\<close>

definition NUL :: char where "NUL = CHR 0x00"
definition INTERRUPT_CHAR :: char where "INTERRUPT_CHAR = CHR 0x03"

text \<open>
  Modelled from the spec: \<^verbatim>\<open>struct dbg_request\<close> and its request kinds are declared
  outside the files at hand. \<open>DREQ_SET_BREAK i\<close> stands for
  \<^verbatim>\<open>DREQ_SET_SW_BREAK + i\<close> and \<open>DREQ_REMOVE_BREAK i\<close> for \<^verbatim>\<open>DREQ_REMOVE_SW_BREAK + i\<close>,
  the five break and watch variants; \<open>DREQ_NONE\<close> is the zeroed request.
\<close>

datatype DbgRequestType =
  DREQ_NONE | DREQ_GET_CURRENT_THREAD | DREQ_GET_OFFSETS | DREQ_GET_REGS | DREQ_GET_REG
  | DREQ_GET_STOP_REASON | DREQ_GET_THREAD_LIST | DREQ_INTERRUPT
  | DREQ_GET_IS_THREAD_ALIVE | DREQ_GET_MEM | DREQ_SET_CONTINUE_THREAD
  | DREQ_SET_QUERY_THREAD | DREQ_CONTINUE | DREQ_STEP
  | DREQ_SET_BREAK nat | DREQ_REMOVE_BREAK nat

record dbg_request =
  req_type :: DbgRequestType
  req_target :: int
  req_mem_addr :: int
  req_mem_len :: int
  req_reg :: int

definition no_request :: dbg_request where
  "no_request = \<lparr>req_type = DREQ_NONE, req_target = 0, req_mem_addr = 0, req_mem_len = 0,
                  req_reg = 0\<rparr>"

text \<open>
  \<open>inbuf\<close> is the whole input array, of which the first \<open>inlen\<close> bytes are valid;
  \<open>outbuf\<close> holds the \<^verbatim>\<open>outlen\<close> bytes waiting to be sent. The client socket is
  \<open>sock_in\<close>, the chunks that the coming \<^verbatim>\<open>read\<close> calls will deliver one by one (an
  empty chunk is the end of the stream, no chunk left means that \<^verbatim>\<open>poll\<close> waits for
  ever), and \<open>sock_out\<close>, the bytes written to the debugger so far.
\<close>

record dbg_context =
  req :: dbg_request
  resume_thread :: int
  query_thread :: int
  serving_symbol_lookups :: bool
  no_ack :: bool
  non_stop :: bool
  inbuf :: string
  inlen :: nat
  insize :: nat
  packetend :: nat
  outbuf :: string
  sock_in :: "string list"
  sock_out :: string

definition dbg_is_resume_request :: "dbg_request \<Rightarrow> bool" where
  "dbg_is_resume_request r \<longleftrightarrow> req_type r = DREQ_CONTINUE \<or> req_type r = DREQ_STEP"

definition request_needs_immediate_response :: "dbg_request \<Rightarrow> bool" where
  "request_needs_immediate_response r \<longleftrightarrow>
     \<not> (req_type r = DREQ_NONE \<or> req_type r = DREQ_CONTINUE \<or> req_type r = DREQ_STEP)"

subsection \<open>C strings in the input array\<close>

text \<open>
  A \<^verbatim>\<open>char*\<close> into \<open>inbuf\<close> is an index. The string at an index runs up to the next
  \<open>NUL\<close> (or to the end of the array).
\<close>

definition c_str :: "string \<Rightarrow> nat \<Rightarrow> string" where
  "c_str buf i = takeWhile (\<lambda>c. c \<noteq> NUL) (drop i buf)"

definition strchr :: "string \<Rightarrow> nat \<Rightarrow> char \<Rightarrow> nat option" where
  "strchr buf i c =
     (let s = c_str buf i; k = length (takeWhile (\<lambda>x. x \<noteq> c) s)
      in if k < length s then Some (i + k) else None)"

definition memchr :: "string \<Rightarrow> nat \<Rightarrow> char \<Rightarrow> nat \<Rightarrow> nat option" where
  "memchr buf i c n =
     (let s = take n (drop i buf); k = length (takeWhile (\<lambda>x. x \<noteq> c) s)
      in if k < length s then Some (i + k) else None)"

text \<open>\<^verbatim>\<open>memmove(buf, buf + k, n)\<close>.\<close>

definition memmove_front :: "string \<Rightarrow> nat \<Rightarrow> nat \<Rightarrow> string" where
  "memmove_front buf k n = take n (drop k buf) @ drop n buf"

definition hex_digit :: "char \<Rightarrow> nat option" where
  "hex_digit c =
     (let n = of_char c :: nat
      in if 48 \<le> n \<and> n \<le> 57 then Some (n - 48)
         else if 97 \<le> n \<and> n \<le> 102 then Some (n - 87)
         else if 65 \<le> n \<and> n \<le> 70 then Some (n - 55)
         else None)"

definition isspace :: "char \<Rightarrow> bool" where
  "isspace c \<longleftrightarrow> (let n = of_char c :: nat in n = 32 \<or> (9 \<le> n \<and> n \<le> 13))"

fun hex_value :: "int \<Rightarrow> string \<Rightarrow> int" where
  "hex_value acc [] = acc"
| "hex_value acc (c # cs) = hex_value (16 * acc + int (the (hex_digit c))) cs"

text \<open>
  The C library's \<^verbatim>\<open>strtoul(str, &end, 16)\<close> and \<^verbatim>\<open>strtol(str, &end, 16)\<close> on a
  32-bit \<^verbatim>\<open>long\<close>: white space, a sign, \<^verbatim>\<open>0x\<close> before a digit, then the digits. The
  result is the magnitude with its sign and the index that \<^verbatim>\<open>end\<close> gets; without a digit
  \<^verbatim>\<open>end\<close> is \<^verbatim>\<open>str\<close>.
\<close>

definition scan_hex :: "string \<Rightarrow> nat \<Rightarrow> bool \<times> int \<times> nat" where
  "scan_hex buf i =
     (let i1 = i + length (takeWhile isspace (drop i buf));
          neg = (i1 < length buf \<and> buf ! i1 = CHR ''-'');
          i2 = (if i1 < length buf \<and> (buf ! i1 = CHR ''-'' \<or> buf ! i1 = CHR ''+'')
                then i1 + 1 else i1);
          i3 = (if i2 + 2 < length buf \<and> buf ! i2 = CHR ''0''
                   \<and> (buf ! (i2 + 1) = CHR ''x'' \<or> buf ! (i2 + 1) = CHR ''X'')
                   \<and> hex_digit (buf ! (i2 + 2)) \<noteq> None
                then i2 + 2 else i2);
          digits = takeWhile (\<lambda>c. hex_digit c \<noteq> None) (drop i3 buf)
      in if digits = [] then (False, 0, i)
         else (neg, hex_value 0 digits, i3 + length digits))"

definition strtoul :: "string \<Rightarrow> nat \<Rightarrow> int \<times> nat" where
  "strtoul buf i =
     (case scan_hex buf i of (neg, v, e) \<Rightarrow>
        if 2 ^ 32 \<le> v then (2 ^ 32 - 1, e)
        else if neg then ((2 ^ 32 - v) mod 2 ^ 32, e)
        else (v, e))"

definition strtol :: "string \<Rightarrow> nat \<Rightarrow> int \<times> nat" where
  "strtol buf i =
     (case scan_hex buf i of (neg, v, e) \<Rightarrow>
        if neg then (if 2 ^ 31 < v then (- (2 ^ 31), e) else (- v, e))
        else (if 2 ^ 31 \<le> v then (2 ^ 31 - 1, e) else (v, e)))"

definition parse_threadid :: "string \<Rightarrow> nat \<Rightarrow> int \<times> nat" where
  "parse_threadid buf i = strtol buf i"

text \<open>Reading \<open>inbuf[i]\<close>; an index outside the array is undefined.\<close>

definition char_at :: "string \<Rightarrow> nat \<Rightarrow> error + char" where
  "char_at buf i = (if i < length buf then Inr (buf ! i) else Inl Undefined)"

subsection \<open>Output\<close>

fun hex_digits :: "nat \<Rightarrow> nat \<Rightarrow> string" where
  "hex_digits 0 n = []"
| "hex_digits (Suc k) n =
     (if n = 0 then [] else hex_digits k (n div 16) @ [''0123456789abcdef'' ! (n mod 16)])"

text \<open>\<^verbatim>\<open>printf("%02x")\<close> of a value below \<open>2 ^ 32\<close>.\<close>

definition hex02 :: "nat \<Rightarrow> string" where
  "hex02 n = (let s = hex_digits 8 n in replicate (2 - length s) CHR ''0'' @ s)"

definition write_data_raw :: "dbg_context \<Rightarrow> string \<Rightarrow> error + dbg_context" where
  "write_data_raw dbg d =
     and_then (assert (length (outbuf dbg) + length d < insize dbg)) (\<lambda>_.
       Inr (dbg\<lparr>outbuf := outbuf dbg @ d\<rparr>))"

definition write_hex :: "dbg_context \<Rightarrow> nat \<Rightarrow> error + dbg_context" where
  "write_hex dbg hex = write_data_raw dbg (hex02 hex)"

definition checksum :: "string \<Rightarrow> nat" where
  "checksum d = sum_list (map of_char d) mod 256"

definition write_packet_payload :: "dbg_context \<Rightarrow> string \<Rightarrow> error + dbg_context" where
  "write_packet_payload dbg d =
     and_then (write_data_raw dbg d) (\<lambda>dbg.
     and_then (write_data_raw dbg ''#'') (\<lambda>dbg.
       write_hex dbg (checksum d)))"

definition write_packet :: "dbg_context \<Rightarrow> string \<Rightarrow> error + dbg_context" where
  "write_packet dbg d =
     and_then (write_data_raw dbg ''$'') (\<lambda>dbg. write_packet_payload dbg d)"

definition write_async_packet :: "dbg_context \<Rightarrow> string \<Rightarrow> error + dbg_context" where
  "write_async_packet dbg d =
     and_then (write_data_raw dbg ''%'') (\<lambda>dbg. write_packet_payload dbg d)"

definition write_hex_encoded_bytes :: "dbg_context \<Rightarrow> string \<Rightarrow> error + dbg_context" where
  "write_hex_encoded_bytes dbg d = write_packet dbg (concat (map (\<lambda>b. hex02 (of_char b)) d))"

definition write_hex_encoded_ascii_string :: "dbg_context \<Rightarrow> string \<Rightarrow> error + dbg_context" where
  "write_hex_encoded_ascii_string dbg str = write_hex_encoded_bytes dbg str"

text \<open>Every \<^verbatim>\<open>write\<close> on the socket takes all it is given.\<close>

definition write_flush :: "dbg_context \<Rightarrow> dbg_context" where
  "write_flush dbg = dbg\<lparr>sock_out := sock_out dbg @ outbuf dbg, outbuf := []\<rparr>"

definition consume_request :: "dbg_context \<Rightarrow> dbg_context" where
  "consume_request dbg = write_flush (dbg\<lparr>req := no_request\<rparr>)"

definition send_stop_reply_packet ::
  "int \<Rightarrow> int \<Rightarrow> dbg_context \<Rightarrow> bool \<Rightarrow> string \<Rightarrow> int \<Rightarrow> int \<Rightarrow> error + dbg_context" where
  "send_stop_reply_packet rtmin rtmax dbg async pfx thread sig =
     (if 0 \<le> sig then
        and_then (to_gdb_signum rtmin rtmax sig) (\<lambda>gdb_sig.
          let buf = pfx @ ''T'' @ hex02 (nat gdb_sig) @ ''thread:''
                      @ hex02 (nat (thread mod 2 ^ 32)) @ '';''
          in if async then write_async_packet dbg buf else write_packet dbg buf)
      else write_packet dbg ''E01'')"

subsection \<open>Input\<close>

text \<open>
  \<^verbatim>\<open>read_data_once\<close>: \<open>None\<close> when no data will ever come and \<^verbatim>\<open>poll\<close> does not
  return.
\<close>

definition read_data_once :: "dbg_context \<Rightarrow> (error + dbg_context) option" where
  "read_data_once dbg =
     (case sock_in dbg of
        [] \<Rightarrow> None
      | chunk # chunks \<Rightarrow>
          let got = take (insize dbg - inlen dbg) chunk;
              nread = length got
          in if nread = 0 then Some (Inl Fatal)
             else if \<not> inlen dbg + nread < insize dbg then Some (Inl AssertFailed)
             else Some (Inr (dbg\<lparr>inbuf := take (inlen dbg) (inbuf dbg) @ got
                                           @ drop (inlen dbg + nread) (inbuf dbg),
                                  inlen := inlen dbg + nread,
                                  sock_in := chunks\<rparr>)))"

definition skip_to_packet_start :: "dbg_context \<Rightarrow> error + (bool \<times> dbg_context)" where
  "skip_to_packet_start dbg =
     (let valid = take (inlen dbg) (inbuf dbg);
          i = length (takeWhile (\<lambda>c. \<not> (c = CHR ''$'' \<or> c = INTERRUPT_CHAR)) valid)
      in if \<not> i < length valid then Inr (True, dbg\<lparr>inlen := 0\<rparr>)
         else
           let dbg = dbg\<lparr>inbuf := memmove_front (inbuf dbg) i (inlen dbg - i),
                         inlen := inlen dbg - i\<rparr>
           in and_then (assert (1 \<le> inlen dbg)) (\<lambda>_.
              and_then (assert (CHR ''$'' = inbuf dbg ! 0 \<or> INTERRUPT_CHAR = inbuf dbg ! 0)) (\<lambda>_.
                Inr (False, dbg))))"

definition poll_incoming :: "dbg_context \<Rightarrow> bool" where
  "poll_incoming dbg \<longleftrightarrow> sock_in dbg \<noteq> []"

definition sniff_packet :: "dbg_context \<Rightarrow> error + (bool \<times> dbg_context)" where
  "sniff_packet dbg =
     and_then (skip_to_packet_start dbg) (\<lambda>(not_seen, dbg).
       if \<not> not_seen then Inr (False, dbg)
       else and_then (assert (0 = inlen dbg)) (\<lambda>_. Inr (\<not> poll_incoming dbg, dbg)))"

partial_function (option) read_to_packet_start :: "dbg_context \<Rightarrow> (error + dbg_context) option" where
  "read_to_packet_start dbg =
     (case skip_to_packet_start dbg of
        Inl e \<Rightarrow> Some (Inl e)
      | Inr (not_seen, dbg) \<Rightarrow>
          if \<not> not_seen then Some (Inr dbg)
          else case read_data_once dbg of
                 None \<Rightarrow> None
               | Some (Inl e) \<Rightarrow> Some (Inl e)
               | Some (Inr dbg) \<Rightarrow> read_to_packet_start dbg)"

partial_function (option) read_to_packet_end ::
  "dbg_context \<Rightarrow> nat \<Rightarrow> (error + (nat \<times> dbg_context)) option" where
  "read_to_packet_end dbg checkedlen =
     (case memchr (inbuf dbg) checkedlen CHR ''#'' (inlen dbg) of
        Some p \<Rightarrow> Some (Inr (p, dbg))
      | None \<Rightarrow>
          (case read_data_once dbg of
             None \<Rightarrow> None
           | Some (Inl e) \<Rightarrow> Some (Inl e)
           | Some (Inr dbg) \<Rightarrow> read_to_packet_end dbg (inlen dbg)))"

definition read_packet :: "dbg_context \<Rightarrow> (error + dbg_context) option" where
  "read_packet dbg =
     (case read_to_packet_start dbg of
        None \<Rightarrow> None
      | Some (Inl e) \<Rightarrow> Some (Inl e)
      | Some (Inr dbg) \<Rightarrow>
          if inbuf dbg ! 0 = INTERRUPT_CHAR then Some (Inr (dbg\<lparr>packetend := 1\<rparr>))
          else case read_to_packet_end dbg 0 of
                 None \<Rightarrow> None
               | Some (Inl e) \<Rightarrow> Some (Inl e)
               | Some (Inr (p, dbg)) \<Rightarrow>
                   Some (let dbg = dbg\<lparr>packetend := p\<rparr>
                         in and_then (assert (CHR ''$'' = inbuf dbg ! 0
                                              \<and> packetend dbg < inlen dbg)) (\<lambda>_.
                              if \<not> no_ack dbg then
                                and_then (write_data_raw dbg ''+'') (\<lambda>dbg. Inr (write_flush dbg))
                              else Inr dbg)))"

subsection \<open>Packets\<close>

text \<open>
  \<^verbatim>\<open>args = strchr(payload, sep); if (args) *args++ = '\0';\<close> gives the array with
  the separator overwritten and \<open>args\<close>, \<open>None\<close> for \<^verbatim>\<open>NULL\<close>.
\<close>

definition split_args :: "string \<Rightarrow> nat \<Rightarrow> char \<Rightarrow> string \<times> nat option" where
  "split_args buf payload sep =
     (case strchr buf payload sep of
        None \<Rightarrow> (buf, None)
      | Some i \<Rightarrow> (buf[i := NUL], Some (i + 1)))"

definition reply :: "dbg_context \<Rightarrow> string \<Rightarrow> error + (int \<times> dbg_context)" where
  "reply dbg d = and_then (write_packet dbg d) (\<lambda>dbg. Inr (0, dbg))"

definition query :: "dbg_context \<Rightarrow> nat \<Rightarrow> error + (int \<times> dbg_context)" where
  "query dbg payload =
     (case split_args (inbuf dbg) payload CHR '':'' of (buf, args) \<Rightarrow>
        let dbg = dbg\<lparr>inbuf := buf\<rparr>;
            name = c_str buf payload
        in if name = ''C'' then
             Inr (1, dbg\<lparr>req := (req dbg)\<lparr>req_type := DREQ_GET_CURRENT_THREAD\<rparr>\<rparr>)
           else if name = ''Attached'' then reply dbg ''1''
           else if name = ''fThreadInfo'' then
             Inr (1, dbg\<lparr>req := (req dbg)\<lparr>req_type := DREQ_GET_THREAD_LIST\<rparr>\<rparr>)
           else if name = ''sThreadInfo'' then reply dbg ''l''
           else if name = ''GetTLSAddr'' then reply dbg []
           else if name = ''Offsets'' then
             Inr (1, dbg\<lparr>req := (req dbg)\<lparr>req_type := DREQ_GET_OFFSETS,
                                            req_target := query_thread dbg\<rparr>\<rparr>)
           else if CHR ''P'' = (if name = [] then NUL else hd name) then reply dbg []
           else if name = ''Supported'' then
             and_then (write_packet dbg ''QStartNoAckMode+;QNonStop+'') (\<lambda>dbg.
               reply dbg ''QNonStop+'')
           else if name = ''Symbol'' then
             reply (dbg\<lparr>serving_symbol_lookups := True\<rparr>) ''OK''
           else if take 15 name = ''ThreadExtraInfo'' then
             and_then (write_hex_encoded_ascii_string dbg ''rr tracee'') (\<lambda>dbg. Inr (0, dbg))
           else if name = ''TStatus'' then reply dbg []
           else reply dbg [])"

definition set_packet :: "dbg_context \<Rightarrow> nat \<Rightarrow> error + (int \<times> dbg_context)" where
  "set_packet dbg payload =
     (case split_args (inbuf dbg) payload CHR '':'' of (buf, args) \<Rightarrow>
        let dbg = dbg\<lparr>inbuf := buf\<rparr>;
            name = c_str buf payload
        in if name = ''StartNoAckMode'' then
             and_then (write_packet dbg ''OK'') (\<lambda>dbg. Inr (0, dbg\<lparr>no_ack := True\<rparr>))
           else if name = ''NonStop'' then
             (case args of
                None \<Rightarrow> Inl Undefined
              | Some a \<Rightarrow>
                  if c_str buf a \<noteq> ''1'' then Inl Fatal
                  else and_then (write_packet dbg ''OK'') (\<lambda>dbg.
                         Inr (0, dbg\<lparr>non_stop := True\<rparr>)))
           else reply dbg [])"

definition process_vpacket ::
  "int \<Rightarrow> int \<Rightarrow> dbg_context \<Rightarrow> nat \<Rightarrow> error + (int \<times> dbg_context)" where
  "process_vpacket rtmin rtmax dbg payload =
     (case split_args (inbuf dbg) payload CHR '';'' of (buf, args) \<Rightarrow>
        let dbg = dbg\<lparr>inbuf := buf\<rparr>;
            name = c_str buf payload
        in if ''Cont'' = name then
             (case args of
                None \<Rightarrow> Inl Undefined
              | Some a \<Rightarrow>
                  and_then (char_at buf a) (\<lambda>cmd.
                  let a = a + 1 in
                  and_then (char_at buf (a + 1)) (\<lambda>c1.
                  let buf = (if NUL \<noteq> c1 then buf[a := NUL] else buf);
                      a = (if NUL \<noteq> c1 then a + 1 else a);
                      dbg = dbg\<lparr>inbuf := buf\<rparr>
                  in if cmd = CHR ''C'' \<or> cmd = CHR ''c'' then
                       and_then
                         (write_packet
                            (dbg\<lparr>req := (req dbg)\<lparr>req_type := DREQ_CONTINUE,
                                                  req_target := resume_thread dbg\<rparr>\<rparr>) ''OK'')
                         (\<lambda>dbg. Inr (1, dbg))
                     else if cmd = CHR ''s'' then
                       (case parse_threadid buf a of (thread, a) \<Rightarrow>
                          and_then (assert (c_str buf a = [] \<or> c_str buf a = '';c'')) (\<lambda>_.
                          and_then
                            (write_packet
                               (dbg\<lparr>req := (req dbg)\<lparr>req_type := DREQ_STEP,
                                                     req_target := thread\<rparr>\<rparr>) ''OK'')
                            (\<lambda>dbg. Inr (1, dbg))))
                     else if cmd = CHR ''t'' then
                       (case parse_threadid buf a of (thread, a) \<Rightarrow>
                          and_then (write_packet dbg ''OK'') (\<lambda>dbg.
                          and_then (send_stop_reply_packet rtmin rtmax dbg True ''Stop:'' thread 0)
                            (\<lambda>dbg. Inr (0, dbg))))
                     else reply dbg [])))
           else if ''Cont?'' = name then reply dbg ''vCont;c;C;s;S;t;''
           else if ''Stopped'' = name then reply dbg ''OK''
           else reply dbg [])"

text \<open>The second \<^verbatim>\<open>switch\<close> of \<^verbatim>\<open>process_packet\<close>, reached in non-stop mode only.\<close>

definition process_nonstop_request ::
  "int \<Rightarrow> int \<Rightarrow> dbg_context \<Rightarrow> char \<Rightarrow> nat \<Rightarrow> error + (int \<times> dbg_context)" where
  "process_nonstop_request rtmin rtmax dbg request payload =
     (let buf = inbuf dbg in
      if request = INTERRUPT_CHAR then
        Inr (1, dbg\<lparr>req := (req dbg)\<lparr>req_type := DREQ_INTERRUPT\<rparr>\<rparr>)
      else if request = CHR ''g'' then
        Inr (1, dbg\<lparr>req := (req dbg)\<lparr>req_type := DREQ_GET_REGS,
                                       req_target := query_thread dbg\<rparr>\<rparr>)
      else if request = CHR ''G'' then reply dbg []
      else if request = CHR ''k'' then
        and_then (write_packet dbg ''OK'') (\<lambda>_. Inl Exit)
      else if request = CHR ''m'' then
        (case strtoul buf payload of (a, p) \<Rightarrow>
         case strtoul buf (p + 1) of (n, p) \<Rightarrow>
           and_then (assert (c_str buf p = [])) (\<lambda>_.
             Inr (1, dbg\<lparr>req := (req dbg)\<lparr>req_type := DREQ_GET_MEM,
                                            req_target := query_thread dbg,
                                            req_mem_addr := a, req_mem_len := n\<rparr>\<rparr>)))
      else if request = CHR ''M'' then reply dbg []
      else if request = CHR ''p'' then
        (case strtoul buf payload of (r, p) \<Rightarrow>
           and_then (assert (c_str buf p = [])) (\<lambda>_.
             Inr (1, dbg\<lparr>req := (req dbg)\<lparr>req_type := DREQ_GET_REG,
                                            req_target := query_thread dbg,
                                            req_reg := r\<rparr>\<rparr>)))
      else if request = CHR ''P'' then reply dbg []
      else if request = CHR ''T'' then
        (case parse_threadid buf payload of (thread, p) \<Rightarrow>
           and_then (assert (c_str buf p = [])) (\<lambda>_.
             Inr (1, dbg\<lparr>req := (req dbg)\<lparr>req_type := DREQ_GET_IS_THREAD_ALIVE,
                                            req_target := thread\<rparr>\<rparr>)))
      else if request = CHR ''v'' then process_vpacket rtmin rtmax dbg payload
      else if request = CHR ''X'' then reply dbg []
      else if request = CHR ''z'' \<or> request = CHR ''Z'' then
        (case strtol buf payload of (ty, p) \<Rightarrow>
           and_then (char_at buf p) (\<lambda>c.
           and_then (assert (CHR '','' = c)) (\<lambda>_.
             if \<not> (0 \<le> ty \<and> ty \<le> 4) then reply dbg []
             else
               case strtoul buf (p + 1) of (a, p) \<Rightarrow>
                 and_then (char_at buf p) (\<lambda>c.
                 and_then (assert (CHR '','' = c)) (\<lambda>_.
                   case strtoul buf (p + 1) of (n, p) \<Rightarrow>
                     and_then (assert (c_str buf p = [])) (\<lambda>_.
                       Inr (1, dbg\<lparr>req := (req dbg)
                                  \<lparr>req_type := (if request = CHR ''Z''
                                                then DREQ_SET_BREAK (nat ty)
                                                else DREQ_REMOVE_BREAK (nat ty)),
                                   req_mem_addr := a, req_mem_len := n\<rparr>\<rparr>)))))))
      else if request = CHR ''?'' then
        Inr (1, dbg\<lparr>req := (req dbg)\<lparr>req_type := DREQ_GET_STOP_REASON,
                                       req_target := query_thread dbg\<rparr>\<rparr>)
      else reply dbg [])"

text \<open>The end of \<^verbatim>\<open>process_packet\<close>, from the label \<^verbatim>\<open>processed_request\<close> on.\<close>

definition processed_request :: "int \<times> dbg_context \<Rightarrow> error + (int \<times> dbg_context)" where
  "processed_request r =
     (case r of (ret, dbg) \<Rightarrow>
        if inlen dbg < packetend dbg then Inl Undefined
        else
          let dbg = dbg\<lparr>inbuf := memmove_front (inbuf dbg) (packetend dbg)
                                    (inlen dbg - packetend dbg),
                        inlen := inlen dbg - packetend dbg\<rparr>
          in Inr (ret, if ret = 0 then consume_request dbg else dbg))"

definition process_packet :: "int \<Rightarrow> int \<Rightarrow> dbg_context \<Rightarrow> error + (int \<times> dbg_context)" where
  "process_packet rtmin rtmax dbg =
     and_then (assert (INTERRUPT_CHAR = inbuf dbg ! 0
                       \<or> (CHR ''$'' = inbuf dbg ! 0
                           \<and> memchr (inbuf dbg) 0 CHR ''#'' (inlen dbg) = Some (packetend dbg)))) (\<lambda>_.
     and_then
       (if INTERRUPT_CHAR = inbuf dbg ! 0 then Inr (INTERRUPT_CHAR, 0, dbg)
        else and_then (char_at (inbuf dbg) 1) (\<lambda>request.
               Inr (request, 2, dbg\<lparr>inbuf := (inbuf dbg)[packetend dbg := NUL]\<rparr>)))
       (\<lambda>(request, payload, dbg).
     and_then
       (if request = CHR ''D'' then
          and_then (write_packet dbg ''OK'') (\<lambda>_. Inl Exit)
        else if request = CHR ''H'' then
          and_then (char_at (inbuf dbg) payload) (\<lambda>c.
            let ty = (if CHR ''c'' = c then DREQ_SET_CONTINUE_THREAD else DREQ_SET_QUERY_THREAD)
            in case parse_threadid (inbuf dbg) (payload + 1) of (thread, p) \<Rightarrow>
                 and_then (assert (c_str (inbuf dbg) p = [])) (\<lambda>_.
                   Inr (1, dbg\<lparr>req := (req dbg)\<lparr>req_type := ty, req_target := thread\<rparr>\<rparr>)))
        else if request = CHR ''q'' then query dbg payload
        else if request = CHR ''Q'' then set_packet dbg payload
        else if \<not> non_stop dbg then Inl Fatal
        else process_nonstop_request rtmin rtmax dbg request payload)
       processed_request))"

partial_function (option) dbg_get_request_loop ::
  "int \<Rightarrow> int \<Rightarrow> dbg_context \<Rightarrow> (error + (dbg_request \<times> dbg_context)) option" where
  "dbg_get_request_loop rtmin rtmax dbg =
     (case read_packet dbg of
        None \<Rightarrow> None
      | Some (Inl e) \<Rightarrow> Some (Inl e)
      | Some (Inr dbg) \<Rightarrow>
          (case process_packet rtmin rtmax dbg of
             Inl e \<Rightarrow> Some (Inl e)
           | Inr (ret, dbg) \<Rightarrow>
               if ret \<noteq> 0 then Some (Inr (req dbg, dbg))
               else dbg_get_request_loop rtmin rtmax dbg))"

definition dbg_get_request ::
  "int \<Rightarrow> int \<Rightarrow> dbg_context \<Rightarrow> (error + (dbg_request \<times> dbg_context)) option" where
  "dbg_get_request rtmin rtmax dbg =
     (if request_needs_immediate_response (req dbg) then Some (Inl AssertFailed)
      else case sniff_packet dbg of
             Inl e \<Rightarrow> Some (Inl e)
           | Inr (no_packet, dbg) \<Rightarrow>
               if no_packet \<and> dbg_is_resume_request (req dbg) then Some (Inr (req dbg, dbg))
               else dbg_get_request_loop rtmin rtmax dbg)"

declare dbg_get_request_loop.simps [code] read_to_packet_start.simps [code]
  read_to_packet_end.simps [code]

section \<open>Reading the claims against the code\<close>

text \<open>
  The translation table as the specification lists it: host signal and debugger number.
\<close>

definition spec_signal_table :: "(int \<times> int) list" where
  "spec_signal_table =
     [(SIGHUP, 1), (SIGINT, 2), (SIGQUIT, 3), (SIGILL, 4), (SIGTRAP, 5), (SIGABRT, 6),
      (SIGBUS, 10), (SIGFPE, 8), (SIGKILL, 9), (SIGSEGV, 11), (SIGPIPE, 13), (SIGALRM, 14),
      (SIGTERM, 15), (SIGUSR1, 30), (SIGUSR2, 31), (SIGSTKFLT, 38), (SIGCHLD, 20),
      (SIGCONT, 19), (SIGSTOP, 17), (SIGTSTP, 18), (SIGTTIN, 21), (SIGTTOU, 22),
      (SIGURG, 16), (SIGXCPU, 24), (SIGXFSZ, 25), (SIGVTALRM, 26), (SIGPROF, 27),
      (SIGWINCH, 28), (SIGIO, 23), (SIGPWR, 32), (SIGSYS, 12)]"



text \<open>
  A task at a signal-stop for \<^verbatim>\<open>SIGSEGV\<close>, with 24 bytes of records in its syscall
  buffer and 5 branches on its running counter.
\<close>

definition task0 :: Task where
  "task0 =
     \<lparr>tid = 100, thread_time = 1, rbcs = 10,
      hpc = \<lparr>started = True, sample_period = 0\<rparr>,
      pending_events = [\<lparr>type = EV_SENTINEL, has_exec_info = False\<rparr>],
      syscallbuf_hdr = Some \<lparr>num_rec_bytes = 24, abort_commit = False, locked = False,
                              image = (\<lambda>_. 0)\<rparr>,
      syscallbuf_child = 0x70000000, num_syscallbuf_bytes = 0x100000,
      traced_syscall_ip = 0, untraced_syscall_ip = 0, desched_fd_child = - 1,
      delay_syscallbuf_reset = False, delay_syscallbuf_flush = False,
      flushed_syscallbuf = False, blocked_sigs = 0,
      wait_status = 0x0b7f, stashed_wait_status = 0, stashed_si = [],
      session_replay = False,
      ofstream = \<lparr>time = 1, written = []\<rparr>,
      kern = \<lparr>rbc_counter = 5, perf_ok = True, siginfo = Some [11, 0, 0, 0],
              u_debugreg = (\<lambda>_. 0), poke_ok = (\<lambda>_ _. True),
              sigset_at = (\<lambda>_. Some 0x20000000)\<rparr>\<rparr>"

text \<open>A configuration: the desched signal is \<^verbatim>\<open>SIGPWR\<close>, the header has 4 bytes.\<close>

definition config0 :: config where
  "config0 =
     \<lparr>max_rbc = 250000, use_syscall_buffer = True, sizeof_syscallbuf_hdr = 4,
      SYSCALLBUF_BUFFER_SIZE = 0x100000, SYSCALLBUF_DESCHED_SIGNAL = SIGPWR,
      REPLAY_DESCHED_EVENT_FD = - 123,
      SYSCALL_FAILED = (\<lambda>ret. - 4096 <s ret \<and> ret <s 0)\<rparr>"



text \<open>What a flush of the task's buffer writes: the event, the blob and the frame.\<close>

definition flush_event :: Event where
  "flush_event = \<lparr>type = EV_SYSCALLBUF_FLUSH, has_exec_info = NO_EXEC_INFO\<rparr>"

definition flush_blob :: "config \<Rightarrow> Task \<Rightarrow> syscallbuf_hdr \<Rightarrow> raw_data" where
  "flush_blob cfg t h =
     \<lparr>rd_addr = syscallbuf_child t,
      rd_data = map (image h) [0..<unat (num_rec_bytes h) + unat (sizeof_syscallbuf_hdr cfg)],
      rd_ev = flush_event, rd_global_time = time (ofstream t)\<rparr>"

definition flush_frame :: "Task \<Rightarrow> trace_frame" where
  "flush_frame t =
     \<lparr>frame_global_time = time (ofstream t), frame_thread_time = thread_time t,
      frame_tid = tid t, frame_ev = flush_event, frame_rbc = None\<rparr>"

text \<open>
  The input array holds the packet \<open>$p#\<close> at its front, as \<^verbatim>\<open>read_packet\<close> leaves it:
  \<open>p\<close> is the text between \<open>$\<close> and the first \<open>#\<close>, and \<open>packetend\<close> is the index of
  that \<open>#\<close>.
\<close>

definition holds_packet :: "dbg_context \<Rightarrow> string \<Rightarrow> bool" where
  "holds_packet dbg p \<longleftrightarrow>
     take (length p + 2) (inbuf dbg) = CHR ''$'' # p @ ''#''
     \<and> packetend dbg = length p + 1 \<and> length p + 1 < inlen dbg
     \<and> inlen dbg < length (inbuf dbg)
     \<and> CHR ''#'' \<notin> set p \<and> NUL \<notin> set p"

text \<open>The name of a packet's payload: its text up to the separator.\<close>

definition packet_name :: "char \<Rightarrow> string \<Rightarrow> string" where
  "packet_name sep s = takeWhile (\<lambda>c. c \<noteq> sep) s"

text \<open>
  The packets that the server answers by itself: \<open>qSupported\<close>, \<open>qAttached\<close>,
  \<open>qTStatus\<close>, \<open>qSymbol\<close>, \<open>QStartNoAckMode\<close> and \<open>QNonStop:1\<close> in either mode; the
  writes \<open>G\<close>, \<open>M\<close>, \<open>X\<close>, \<open>P\<close> and \<open>vCont?\<close>, \<open>vStopped\<close> once non-stop mode is on.
\<close>

definition internal_packet :: "bool \<Rightarrow> string \<Rightarrow> bool" where
  "internal_packet nonstop p =
     (case p of
        [] \<Rightarrow> False
      | r # s \<Rightarrow>
          if r = CHR ''q'' then
            packet_name CHR '':'' s \<in> set [''Supported'', ''Attached'', ''TStatus'', ''Symbol'']
          else if r = CHR ''Q'' then
            packet_name CHR '':'' s = ''StartNoAckMode'' \<or> s = ''NonStop:1''
          else
            nonstop \<and> (r \<in> set ''GMXP''
                        \<or> (r = CHR ''v'' \<and> packet_name CHR '';'' s \<in> set [''Cont?'', ''Stopped''])))"

text \<open>A packet as it goes onto the wire: \<open>$\<close>, the payload, \<open>#\<close> and the checksum.\<close>

definition gdb_packet :: "string \<Rightarrow> string" where
  "gdb_packet d = ''$'' @ d @ ''#'' @ hex02 (checksum d)"

text \<open>A debug context with an input array of 32 bytes, in no-ack and non-stop mode.\<close>

definition dbg0 :: dbg_context where
  "dbg0 =
     \<lparr>req = no_request, resume_thread = 7, query_thread = 7,
      serving_symbol_lookups = False, no_ack = True, non_stop = True,
      inbuf = replicate 32 NUL, inlen = 0, insize = 32, packetend = 0,
      outbuf = [], sock_in = [], sock_out = []\<rparr>"

section \<open>Signals\<close>

lemmas signal_defs =
  SIGHUP_def SIGINT_def SIGQUIT_def SIGILL_def SIGTRAP_def SIGABRT_def SIGBUS_def
  SIGFPE_def SIGKILL_def SIGUSR1_def SIGSEGV_def SIGUSR2_def SIGPIPE_def SIGALRM_def
  SIGTERM_def SIGSTKFLT_def SIGCHLD_def SIGCONT_def SIGSTOP_def SIGTSTP_def SIGTTIN_def
  SIGTTOU_def SIGURG_def SIGXCPU_def SIGXFSZ_def SIGVTALRM_def SIGPROF_def SIGWINCH_def
  SIGIO_def SIGPWR_def SIGSYS_def

section \<open>Pending signal of a wait status\<close>

text \<open>
  C10. \<^verbatim>\<open>pending_sig_from_status\<close>: status 0 gives no pending signal; for a stopped
  status a stop signal of \<^verbatim>\<open>SIGTRAP | 0x80\<close> gives none, \<^verbatim>\<open>SIGTRAP\<close> with a ptrace
  event gives none, and every other stop signal is reported with bit \<open>0x80\<close> cleared;
  no result has bit \<open>0x80\<close> set.
\<close>

theorem pending_sig_from_status_cases:
  "pending_sig_from_status 0 = Inr 0
   \<and> (status \<noteq> 0 \<and> stopped_from_status status \<longrightarrow>
        pending_sig_from_status status =
          Inr (if WSTOPSIG status = (SIGTRAP OR 0x80) then 0
               else if WSTOPSIG status = SIGTRAP \<and> ptrace_event_from_status status \<noteq> 0 then 0
               else WSTOPSIG status AND NOT 0x80))
   \<and> (\<forall>sig. pending_sig_from_status status = Inr sig \<longrightarrow> sig AND 0x80 = 0)"
  apply (intro conjI impI allI)
    apply (simp add: pending_sig_from_status_def)
   apply (simp add: pending_sig_from_status_def stop_sig_from_status_def SIGTRAP_def)
  apply (auto simp: pending_sig_from_status_def stop_sig_from_status_def SIGTRAP_def split: if_splits)
  apply (simp add: word_bw_assocs)
  done

theorem pending_sig_from_status_cases_witness:
  "(0x8b7f :: c_int) \<noteq> 0 \<and> stopped_from_status 0x8b7f
   \<and> pending_sig_from_status 0x8b7f = Inr SIGSEGV
   \<and> pending_sig_from_status 0x857f = Inr 0
   \<and> pending_sig_from_status 0x3057f = Inr 0"
proof -
  have a: "(0x8b7f :: c_int) \<noteq> 0 \<and> stopped_from_status 0x8b7f"
    by (simp add: stopped_from_status_def WIFSTOPPED_def)
  have b: "(0x857f :: c_int) \<noteq> 0 \<and> stopped_from_status 0x857f"
    by (simp add: stopped_from_status_def WIFSTOPPED_def)
  have c: "(0x3057f :: c_int) \<noteq> 0 \<and> stopped_from_status 0x3057f"
    by (simp add: stopped_from_status_def WIFSTOPPED_def)
  from a b c pending_sig_from_status_cases [of "0x8b7f"]
    pending_sig_from_status_cases [of "0x857f"]
    pending_sig_from_status_cases [of "0x3057f"]
  show ?thesis
    by (simp add: WSTOPSIG_def ptrace_event_from_status_def signal_defs)
qed

section \<open>Signal translation of the debug server\<close>

text \<open>
  C7. \<^verbatim>\<open>to_gdb_signum\<close> maps every host signal of the specification's table to the
  listed debugger number, and every realtime signal \<open>sig\<close> with
  \<open>SIGRTMIN \<le> sig \<le> SIGRTMAX\<close> to \<open>sig + 12\<close>. The realtime range lies above the
  31 standard signals.
\<close>

theorem to_gdb_signum_table:
  assumes "31 < rtmin"
  shows "(\<forall>(host, gdb) \<in> set spec_signal_table. to_gdb_signum rtmin rtmax host = Inr gdb)
         \<and> (\<forall>sig. rtmin \<le> sig \<and> sig \<le> rtmax \<longrightarrow> to_gdb_signum rtmin rtmax sig = Inr (sig + 12))"
  using assms by (simp add: spec_signal_table_def to_gdb_signum_def signal_defs)

theorem to_gdb_signum_table_witness:
  "(31::int) < 34
   \<and> to_gdb_signum 34 64 SIGBUS = Inr 10
   \<and> to_gdb_signum 34 64 SIGSTKFLT = Inr 38
   \<and> to_gdb_signum 34 64 40 = Inr 52"
  using to_gdb_signum_table [of 34 64]
  by (simp add: spec_signal_table_def)

section \<open>The branch count is monotonic\<close>


lemma reset_hpc_ok:
  "perf_ok (kern t) \<Longrightarrow> \<exists>t'. reset_hpc t val = Inr t'"
  by (auto simp: reset_hpc_def cleanup_hpc_def stop_hpc_def stop_counter_def start_hpc_def
        start_counter_def)





section \<open>Stashing a signal\<close>

text \<open>
  C4. A task with a pending signal and nothing stashed: \<^verbatim>\<open>stash_sig()\<close> succeeds, and
  \<^verbatim>\<open>pop_stash_sig()\<close> after it (whatever the wait status and the kernel's state have
  become in between) returns the siginfo captured at stash time, puts the wait status of
  stash time back, and leaves \<^verbatim>\<open>has_stashed_sig()\<close> false, \<open>stashed_wait_status\<close> 0.
\<close>

theorem stash_then_pop_restores:
  assumes "pending_sig t = Inr sig" and "sig \<noteq> 0"
    and "\<not> has_stashed_sig t"
    and "siginfo (kern t) = Some si"
  shows "\<exists>t1. stash_sig t = Inr t1 \<and> has_stashed_sig t1
     \<and> (\<forall>status k. \<exists>t2.
           pop_stash_sig (force_status (t1\<lparr>kern := k\<rparr>) status) = Inr (si, t2)
           \<and> wait_status t2 = wait_status t
           \<and> \<not> has_stashed_sig t2 \<and> stashed_wait_status t2 = 0)"
proof -
  have nz: "wait_status t \<noteq> 0"
    using assms(1,2) by (auto simp: pending_sig_def pending_sig_from_status_def)
  let ?t1 = "t\<lparr>stashed_wait_status := wait_status t, stashed_si := si\<rparr>"
  have s: "stash_sig t = Inr ?t1"
    using assms by (simp add: stash_sig_def get_siginfo_def)
  have h: "has_stashed_sig ?t1"
    using nz by (simp add: has_stashed_sig_def)
  have "\<exists>t2. pop_stash_sig (force_status (?t1\<lparr>kern := k\<rparr>) status) = Inr (si, t2)
           \<and> wait_status t2 = wait_status t
           \<and> \<not> has_stashed_sig t2 \<and> stashed_wait_status t2 = 0" for status k
    using nz by (simp add: pop_stash_sig_def force_status_def has_stashed_sig_def)
  with s h show ?thesis by blast
qed

theorem stash_then_pop_restores_witness:
  "pending_sig task0 = Inr SIGSEGV \<and> (SIGSEGV :: c_int) \<noteq> 0 \<and> \<not> has_stashed_sig task0
   \<and> siginfo (kern task0) = Some [11, 0, 0, 0]
   \<and> stash_sig task0 = Inr (task0\<lparr>stashed_wait_status := 0x0b7f, stashed_si := [11, 0, 0, 0]\<rparr>)
   \<and> pop_stash_sig (task0\<lparr>stashed_wait_status := 0x0b7f, stashed_si := [11, 0, 0, 0]\<rparr>)
       = Inr ([11, 0, 0, 0], task0\<lparr>stashed_si := [11, 0, 0, 0]\<rparr>)"
proof -
  have p: "pending_sig task0 = Inr SIGSEGV"
    by (simp add: task0_def pending_sig_def pending_sig_from_status_def
          stop_sig_from_status_def stopped_from_status_def WIFSTOPPED_def WSTOPSIG_def
          signal_defs)
  have n: "(SIGSEGV :: c_int) \<noteq> 0" by (simp add: signal_defs)
  have h: "\<not> has_stashed_sig task0" by (simp add: task0_def has_stashed_sig_def)
  have i: "siginfo (kern task0) = Some [11, 0, 0, 0]" by (simp add: task0_def)
  have s: "stash_sig task0 = Inr (task0\<lparr>stashed_wait_status := 0x0b7f, stashed_si := [11, 0, 0, 0]\<rparr>)"
    by (simp add: stash_sig_def get_siginfo_def has_stashed_sig_def task0_def
          pending_sig_def pending_sig_from_status_def
          stop_sig_from_status_def stopped_from_status_def WIFSTOPPED_def WSTOPSIG_def
          signal_defs)
  have q: "pop_stash_sig (task0\<lparr>stashed_wait_status := 0x0b7f, stashed_si := [11, 0, 0, 0]\<rparr>)
       = Inr ([11, 0, 0, 0], task0\<lparr>stashed_si := [11, 0, 0, 0]\<rparr>)"
    by (simp add: task0_def pop_stash_sig_def force_status_def has_stashed_sig_def)
  from stash_then_pop_restores [OF p n h i] p n h i s q show ?thesis
    by simp
qed

section \<open>The lock of the syscall buffer\<close>

lemma set_locked_Inr:
  "set_locked t b = Inr t' \<Longrightarrow>
     (\<exists>h. syscallbuf_hdr t' = Some h \<and> locked h = b) \<and> blocked_sigs t' = blocked_sigs t"
  by (auto simp: set_locked_def split: option.splits)

lemma is_desched_sig_blocked_cong:
  "blocked_sigs t' = blocked_sigs t \<Longrightarrow>
     is_desched_sig_blocked cfg t' = is_desched_sig_blocked cfg t"
  by (simp add: is_desched_sig_blocked_def is_sig_blocked_def)

lemma update_sigmask_locked:
  assumes "update_sigmask cfg t regs = Inr t'"
    and "\<not> SYSCALL_FAILED cfg (syscall_result regs)" and "arg2 regs \<noteq> 0"
    and "syscallbuf_hdr t \<noteq> None"
  shows "\<exists>h. syscallbuf_hdr t' = Some h \<and> locked h = is_desched_sig_blocked cfg t'"
  using assms
  by (auto simp: update_sigmask_def Let_def and_then_eq_Inr split: if_splits
        dest!: set_locked_Inr dest: is_desched_sig_blocked_cong)

lemma init_buffers_locked:
  assumes "init_buffers cfg t remote args map_hint share = Inr (a, t')"
  shows "\<exists>h. syscallbuf_hdr t' = Some h \<and> locked h = is_desched_sig_blocked cfg t'"
  using assms
  by (auto simp: init_buffers_def and_then_eq_Inr split: if_splits prod.splits
        dest!: set_locked_Inr dest: is_desched_sig_blocked_cong)

lemma update_sigmask_returns:
  assumes "arg1 regs \<in> {SIG_BLOCK, SIG_UNBLOCK, SIG_SETMASK}"
    and "sigset_at (kern t) (arg2 regs) = Some new_set"
    and "syscallbuf_hdr t = Some h" and "locked h \<longrightarrow> is_desched_sig_blocked cfg t"
  shows "\<exists>t'. update_sigmask cfg t regs = Inr t'"
  using assms
  by (auto simp: update_sigmask_def Let_def read_mem_sigset_def set_locked_def
        SIG_BLOCK_def SIG_UNBLOCK_def SIG_SETMASK_def)

text \<open>
  C3. With a mapped syscall buffer, after an \<^verbatim>\<open>update_sigmask\<close> that changes the blocked
  signals (the system call succeeded and passed a set) and after \<^verbatim>\<open>init_buffers\<close>, the
  header's \<open>locked\<close> bit equals whether the desched signal is blocked. \<^verbatim>\<open>update_sigmask\<close>
  returns for \<^verbatim>\<open>SIG_BLOCK\<close>, \<^verbatim>\<open>SIG_UNBLOCK\<close> and \<^verbatim>\<open>SIG_SETMASK\<close> when its assertion
  holds and the set can be read.
\<close>

theorem locked_iff_desched_sig_blocked:
  "(update_sigmask cfg t regs = Inr t' \<and> \<not> SYSCALL_FAILED cfg (syscall_result regs)
      \<and> arg2 regs \<noteq> 0 \<and> syscallbuf_hdr t \<noteq> None \<longrightarrow>
      (\<exists>h'. syscallbuf_hdr t' = Some h' \<and> locked h' = is_desched_sig_blocked cfg t'))
   \<and> (init_buffers cfg t remote args map_hint share = Inr (a, t'') \<longrightarrow>
      (\<exists>h'. syscallbuf_hdr t'' = Some h' \<and> locked h' = is_desched_sig_blocked cfg t''))
   \<and> (arg1 regs \<in> {SIG_BLOCK, SIG_UNBLOCK, SIG_SETMASK}
      \<and> sigset_at (kern t) (arg2 regs) = Some new_set
      \<and> syscallbuf_hdr t = Some h \<and> (locked h \<longrightarrow> is_desched_sig_blocked cfg t) \<longrightarrow>
      (\<exists>t'. update_sigmask cfg t regs = Inr t'))"
  using update_sigmask_locked [of cfg t regs t'] init_buffers_locked [of cfg t remote args map_hint share a t'']
    update_sigmask_returns [of regs t new_set h cfg]
  by blast

theorem locked_iff_desched_sig_blocked_witness:
  "update_sigmask config0 task0 \<lparr>arg1 = SIG_BLOCK, arg2 = 0x1000, syscall_result = 0\<rparr>
     = Inr (task0\<lparr>blocked_sigs := 0x20000000,
                  syscallbuf_hdr := Some \<lparr>num_rec_bytes = 24, abort_commit = False,
                                           locked = True, image = (\<lambda>_. 0)\<rparr>\<rparr>)
   \<and> is_desched_sig_blocked config0 (task0\<lparr>blocked_sigs := 0x20000000\<rparr>)
   \<and> init_buffers config0 (task0\<lparr>blocked_sigs := 0x20000000\<rparr>)
        \<lparr>shmem_ok = True, mmap2_result = 0x70000000, desched_ok = True, recv_fd_child = 7\<rparr>
        \<lparr>syscallbuf_enabled = True, args_traced_syscall_ip = 0x1000,
         args_untraced_syscall_ip = 0x2000\<rparr> 0 True
     = Inr (0x70000000,
            task0\<lparr>blocked_sigs := 0x20000000, traced_syscall_ip := 0x1000,
                  untraced_syscall_ip := 0x2000, desched_fd_child := 7,
                  syscallbuf_hdr := Some \<lparr>num_rec_bytes = 0, abort_commit = False,
                                           locked = True, image = (\<lambda>_. 0)\<rparr>\<rparr>)"
proof -
  let ?regs = "\<lparr>arg1 = SIG_BLOCK, arg2 = 0x1000, syscall_result = 0\<rparr>"
  have b: "is_desched_sig_blocked config0 (task0\<lparr>blocked_sigs := 0x20000000\<rparr>)"
    by (simp add: is_desched_sig_blocked_def is_sig_blocked_def config0_def signal_defs
          drop_bit_eq_div)
  have nb: "\<not> is_desched_sig_blocked config0 task0"
    by (simp add: is_desched_sig_blocked_def is_sig_blocked_def config0_def task0_def)
  have u: "update_sigmask config0 task0 ?regs
     = Inr (task0\<lparr>blocked_sigs := 0x20000000,
                  syscallbuf_hdr := Some \<lparr>num_rec_bytes = 24, abort_commit = False,
                                           locked = True, image = (\<lambda>_. 0)\<rparr>\<rparr>)"
    using b nb
    apply (simp add: update_sigmask_def read_mem_sigset_def SIG_BLOCK_def Let_def)
    apply (simp add: task0_def config0_def word_sless_alt set_locked_def
          is_desched_sig_blocked_def is_sig_blocked_def)
    done
  have i: "init_buffers config0 (task0\<lparr>blocked_sigs := 0x20000000\<rparr>)
        \<lparr>shmem_ok = True, mmap2_result = 0x70000000, desched_ok = True, recv_fd_child = 7\<rparr>
        \<lparr>syscallbuf_enabled = True, args_traced_syscall_ip = 0x1000,
         args_untraced_syscall_ip = 0x2000\<rparr> 0 True
     = Inr (0x70000000,
            task0\<lparr>blocked_sigs := 0x20000000, traced_syscall_ip := 0x1000,
                  untraced_syscall_ip := 0x2000, desched_fd_child := 7,
                  syscallbuf_hdr := Some \<lparr>num_rec_bytes = 0, abort_commit = False,
                                           locked = True, image = (\<lambda>_. 0)\<rparr>\<rparr>)"
    using b
    apply (simp add: init_buffers_def init_syscall_buffer_def init_desched_fd_def Let_def
        set_locked_def)
    apply (simp add: task0_def config0_def is_desched_sig_blocked_def is_sig_blocked_def)
    done
  from locked_iff_desched_sig_blocked [of config0 task0 ?regs] u b i show ?thesis
    by simp
qed

section \<open>Setting the debug registers\<close>













section \<open>Reading through a stale memory fd\<close>






section \<open>Flushing the syscall buffer\<close>

lemma maybe_flush_syscallbuf_flushing:
  assumes "ev t = Inr e" and "type e = EV_SYSCALLBUF_FLUSH"
  shows "maybe_flush_syscallbuf cfg t = Inr t"
  using assms by (subst maybe_flush_syscallbuf.simps) simp

lemma record_local_flushing:
  assumes "ev t = Inr e" and "type e = EV_SYSCALLBUF_FLUSH" and "\<not> n <s 0"
  shows "record_local cfg t a n buf =
           Inr (t\<lparr>ofstream := write_raw (ofstream t)
                  \<lparr>rd_addr = a, rd_data = map buf [0..<unat n], rd_ev = e,
                   rd_global_time = time (ofstream t)\<rparr>\<rparr>)"
  using assms
  by (subst record_local.simps) (simp add: maybe_flush_syscallbuf_flushing [OF assms(1,2)])

lemma record_current_event_flushing:
  assumes "ev t = Inr e" and "type e = EV_SYSCALLBUF_FLUSH" and "\<not> has_exec_info e"
  shows "record_current_event cfg t =
           Inr (t\<lparr>thread_time := thread_time t + 1,
                  ofstream := write_frame (ofstream t)
                    \<lparr>frame_global_time = time (ofstream t), frame_thread_time = thread_time t,
                     frame_tid = tid t, frame_ev = e, frame_rbc = None\<rparr>\<rparr>)"
  using assms
  apply (subst record_current_event.simps)
  apply (simp add: record_event.simps [of cfg t e] maybe_flush_syscallbuf_flushing [OF assms(1,2)] Let_def)
  done

lemma not_sless_0_if_small:
  fixes w :: "32 word"
  assumes "unat w < 2 ^ 31"
  shows "\<not> w <s 0"
proof -
  have "int (unat w) < 2 ^ 31"
    using assms by (metis of_nat_less_iff of_nat_numeral of_nat_power)
  then have u: "uint w < 2 ^ 31"
    by simp
  have "0 \<le> uint w"
    by simp
  moreover have "- (2 ^ 31) \<le> (0 :: int)"
    by simp
  ultimately have "- (2 ^ 31) \<le> uint w"
    by (rule order_trans [rotated])
  then have "signed_take_bit 31 (uint w) = uint w"
    using u by (rule signed_take_bit_int_eq_self)
  then have "sint w = uint w"
    by (simp add: sint_uint)
  then show ?thesis
    by (simp add: word_sless_alt)
qed

lemma unat_add_small:
  fixes a b :: "32 word"
  assumes "unat a + unat b < 2 ^ 31"
  shows "unat (a + b) = unat a + unat b"
proof -
  have "unat a + unat b < 2 ^ LENGTH(32)"
    using assms by simp
  then show ?thesis
    by (rule unat_add_lem [THEN iffD1])
qed

text \<open>
  C2. A task whose header records \<open>B > 0\<close> bytes, with both delay flags unset and a top
  event that is not a flush: \<^verbatim>\<open>maybe_flush_syscallbuf\<close> writes one blob of
  \<open>B + sizeof(struct syscallbuf_hdr)\<close> bytes and one \<^verbatim>\<open>EV_SYSCALLBUF_FLUSH\<close> frame to
  the trace, and leaves \<open>num_rec_bytes\<close> at 0. The header's \<open>abort_commit\<close> bit is clear,
  as the function asserts, and the byte count fits \<^verbatim>\<open>ssize_t\<close>, the type of
  \<^verbatim>\<open>record_local\<close>'s parameter.
\<close>

theorem maybe_flush_syscallbuf_flushes:
  assumes "syscallbuf_hdr t = Some h" and "num_rec_bytes h \<noteq> 0"
    and "\<not> delay_syscallbuf_flush t" and "\<not> delay_syscallbuf_reset t"
    and "ev t = Inr e" and "type e \<noteq> EV_SYSCALLBUF_FLUSH"
    and "\<not> abort_commit h"
    and "unat (num_rec_bytes h) + unat (sizeof_syscallbuf_hdr cfg) < 2 ^ 31"
  shows "maybe_flush_syscallbuf cfg t =
           Inr (t\<lparr>thread_time := thread_time t + 1,
                  ofstream := (ofstream t)
                    \<lparr>written := written (ofstream t) @ [Raw (flush_blob cfg t h), Frame (flush_frame t)],
                     time := time (ofstream t) + 1\<rparr>,
                  syscallbuf_hdr := Some (h\<lparr>num_rec_bytes := 0\<rparr>),
                  flushed_syscallbuf := True\<rparr>)
         \<and> length (rd_data (flush_blob cfg t h))
             = unat (num_rec_bytes h) + unat (sizeof_syscallbuf_hdr cfg)
         \<and> type (frame_ev (flush_frame t)) = EV_SYSCALLBUF_FLUSH"
proof -
  let ?n = "num_rec_bytes h + sizeof_syscallbuf_hdr cfg"
  let ?t1 = "push_event t flush_event"
  have n: "unat ?n = unat (num_rec_bytes h) + unat (sizeof_syscallbuf_hdr cfg)"
    using assms(8) by (rule unat_add_small)
  have pos: "\<not> ?n <s 0"
    using assms(8) unfolding n [symmetric] by (rule not_sless_0_if_small)
  have e1: "ev ?t1 = Inr flush_event"
    by (simp add: ev_def push_event_def)
  have ty: "type flush_event = EV_SYSCALLBUF_FLUSH" "\<not> has_exec_info flush_event"
    by (simp_all add: flush_event_def NO_EXEC_INFO_def)
  let ?t2 = "?t1\<lparr>ofstream := write_raw (ofstream ?t1) (flush_blob cfg t h)\<rparr>"
  have l: "record_local cfg ?t1 (syscallbuf_child t) ?n (image h) = Inr ?t2"
    using record_local_flushing [OF e1 ty(1) pos, of cfg "syscallbuf_child t" "image h"]
    by (simp add: push_event_def flush_blob_def n)
  have e2: "ev ?t2 = Inr flush_event"
    by (simp add: ev_def push_event_def)
  let ?t3 = "?t2\<lparr>thread_time := thread_time t + 1,
                    ofstream := write_frame (ofstream ?t2) (flush_frame t)\<rparr>"
  have c: "record_current_event cfg ?t2 = Inr ?t3"
    using record_current_event_flushing [OF e2 ty, of cfg]
    by (simp add: push_event_def write_raw_def flush_frame_def)
  let ?t4 = "?t3\<lparr>pending_events := pending_events t\<rparr>"
  have p: "pop_event ?t3 EV_SYSCALLBUF_FLUSH = Inr ?t4"
    using ty(1) by (simp add: pop_event_def ev_def push_event_def)
  let ?t5 = "?t4\<lparr>syscallbuf_hdr := Some (h\<lparr>num_rec_bytes := 0\<rparr>), flushed_syscallbuf := True\<rparr>"
  have "maybe_flush_syscallbuf cfg t = Inr ?t5"
    apply (subst maybe_flush_syscallbuf.simps)
    using assms(1-7) l c p
    apply (simp add: flush_event_def [symmetric])
    apply (simp add: push_event_def)
    done
  moreover have "?t5 = t\<lparr>thread_time := thread_time t + 1,
                  ofstream := (ofstream t)
                    \<lparr>written := written (ofstream t) @ [Raw (flush_blob cfg t h), Frame (flush_frame t)],
                     time := time (ofstream t) + 1\<rparr>,
                  syscallbuf_hdr := Some (h\<lparr>num_rec_bytes := 0\<rparr>),
                  flushed_syscallbuf := True\<rparr>"
    by (simp add: push_event_def write_raw_def write_frame_def)
  ultimately show ?thesis
    using ty(1) by (simp add: flush_blob_def flush_frame_def)
qed

theorem maybe_flush_syscallbuf_flushes_witness:
  "maybe_flush_syscallbuf config0 task0 =
     Inr (task0\<lparr>thread_time := 2,
            ofstream := \<lparr>time = 2, written =
              [Raw \<lparr>rd_addr = 0x70000000, rd_data = replicate 28 0, rd_ev = flush_event,
                    rd_global_time = 1\<rparr>,
               Frame \<lparr>frame_global_time = 1, frame_thread_time = 1, frame_tid = 100,
                      frame_ev = flush_event, frame_rbc = None\<rparr>]\<rparr>,
            syscallbuf_hdr := Some \<lparr>num_rec_bytes = 0, abort_commit = False, locked = False,
                                     image = (\<lambda>_. 0)\<rparr>,
            flushed_syscallbuf := True\<rparr>)"
proof -
  let ?h = "\<lparr>num_rec_bytes = 24, abort_commit = False, locked = False, image = (\<lambda>_. 0 :: byte)\<rparr>"
  let ?e = "\<lparr>type = EV_SENTINEL, has_exec_info = False\<rparr>"
  have 1: "syscallbuf_hdr task0 = Some ?h" by (simp add: task0_def)
  have 2: "num_rec_bytes ?h \<noteq> 0" by simp
  have 3: "\<not> delay_syscallbuf_flush task0" by (simp add: task0_def)
  have 4: "\<not> delay_syscallbuf_reset task0" by (simp add: task0_def)
  have 5: "ev task0 = Inr ?e" by (simp add: task0_def ev_def)
  have 6: "type ?e \<noteq> EV_SYSCALLBUF_FLUSH" by simp
  have 7: "\<not> abort_commit ?h" by simp
  have 8: "unat (num_rec_bytes ?h) + unat (sizeof_syscallbuf_hdr config0) < 2 ^ 31"
    by (simp add: config0_def)
  have r: "map (\<lambda>_. 0 :: byte) [0..<28] = replicate 28 0"
    by (simp add: map_replicate_const)
  from maybe_flush_syscallbuf_flushes [OF 1 2 3 4 5 6 7 8] show ?thesis
    by (simp add: flush_blob_def flush_frame_def task0_def config0_def r)
qed

end
